theory Spec2Isabelle
  imports Complex_Main
begin

section \<open>The standard normal distribution\<close>

text \<open>
  The notebook imports \<^verbatim>\<open>norm\<close> from \<^verbatim>\<open>scipy.stats\<close> and calls
  \<^verbatim>\<open>norm.cdf(x, 0, 1)\<close> and \<^verbatim>\<open>norm.pdf(x, 0, 1)\<close>. The library is not part of the
  repository, so the two functions are modelled over the reals from the description of the
  standard normal distribution in the specification. Python floats are read as real numbers
  throughout: rounding and overflow are not modelled.
\<close>

definition cdf_coeff :: "nat \<Rightarrow> real" where
  "cdf_coeff n = (- 1) ^ n / (2 ^ n * fact n * real (2 * n + 1))"

definition cdf_series :: "real \<Rightarrow> real" where
  "cdf_series x = (\<Sum>n. cdf_coeff n * x ^ (2 * n + 1))"

text \<open>The absolute value of the \<open>n\<close>-th term of the series, for \<open>x \<ge> 0\<close>.\<close>

definition cdf_abs_term :: "real \<Rightarrow> nat \<Rightarrow> real" where
  "cdf_abs_term x n = x ^ (2 * n + 1) / (2 ^ n * fact n * real (2 * n + 1))"

text \<open>The same series as a power series in \<open>x\<close>: its coefficient of \<open>x^k\<close>.\<close>

definition cdf_power_coeff :: "nat \<Rightarrow> real" where
  "cdf_power_coeff k = (if even k then 0 else cdf_coeff ((k - 1) div 2))"

text \<open>Modelled from the spec: \<^verbatim>\<open>scipy.stats.norm.pdf\<close> is not under src/. Section 4.1 gives the
  density as \<open>N'(x) = (1/\<surd>(2\<pi>)) \<sdot> e^(-x\<^sup>2/2)\<close>.\<close>

definition std_norm_pdf :: "real \<Rightarrow> real" where
  "std_norm_pdf x = exp (- (x ^ 2) / 2) / sqrt (2 * pi)"

text \<open>Modelled from the spec: \<^verbatim>\<open>scipy.stats.norm.cdf\<close> is not under src/. Section 4.1 gives
  \<open>N(x)\<close> as the integral of \<open>N'\<close> from minus infinity to \<open>x\<close>. The integral up to \<open>0\<close> is
  \<open>1/2\<close>; from \<open>0\<close> to \<open>x\<close> the power series of \<open>N'\<close> is integrated term by term, which gives
  \<open>cdf_series x / \<surd>(2\<pi>)\<close>. Below, \<open>DERIV_std_norm_cdf\<close> and \<open>std_norm_cdf_0\<close> show that this is
  the antiderivative of \<open>N'\<close> with value \<open>1/2\<close> at \<open>0\<close>.\<close>

definition std_norm_cdf :: "real \<Rightarrow> real" where
  "std_norm_cdf x = 1 / 2 + cdf_series x / sqrt (2 * pi)"

definition norm_cdf :: "real \<Rightarrow> real \<Rightarrow> real \<Rightarrow> real" where
  \<comment> \<open>\<^verbatim>\<open>norm.cdf(x, loc, scale)\<close>\<close>
  "norm_cdf x loc scale = std_norm_cdf ((x - loc) / scale)"

definition norm_pdf :: "real \<Rightarrow> real \<Rightarrow> real \<Rightarrow> real" where
  \<comment> \<open>\<^verbatim>\<open>norm.pdf(x, loc, scale)\<close>\<close>
  "norm_pdf x loc scale = std_norm_pdf ((x - loc) / scale) / scale"

section \<open>The function \<^verbatim>\<open>BlackScholes\<close> of the notebook\<close>

text \<open>
  What a call does that its caller can observe: the lines it prints on standard output, and
  whether it returns (always Python's \<^verbatim>\<open>None\<close>: the function has no \<^verbatim>\<open>return\<close> statement)
  or lets an exception escape.
\<close>

datatype py_exn = ValueError string | ZeroDivisionError | TypeError

datatype py_value = PyNone

datatype line =
    Text string
  | Fixed5 string real  \<comment> \<open>\<^verbatim>\<open>f"<label>{v:.5f}"\<close>: a label, then the number \<open>v\<close> shown with five decimals\<close>

datatype outcome =
    Returned py_value "line list"
  | Raised py_exn "line list"

text \<open>A \<^verbatim>\<open>print\<close> statement of the body: a literal, or a label with a formatted value. The
  value is \<^verbatim>\<open>None\<close> when the subfunction that computed it fell through its \<^verbatim>\<open>if\<close>/\<^verbatim>\<open>elif\<close>;
  formatting \<^verbatim>\<open>None\<close> with \<^verbatim>\<open>.5f\<close> raises \<^verbatim>\<open>TypeError\<close>.\<close>

datatype stmt = Lit string | Num string "real option"

fun run_prints :: "stmt list \<Rightarrow> line list \<Rightarrow> line list \<times> py_exn option" where
  "run_prints [] out = (out, None)"
| "run_prints (Lit s # rest) out = run_prints rest (out @ [Text s])"
| "run_prints (Num l (Some v) # rest) out = run_prints rest (out @ [Fixed5 l v])"
| "run_prints (Num l None # rest) out = (out, Some TypeError)"

definition calc_d1 :: "real \<Rightarrow> real \<Rightarrow> real \<Rightarrow> real \<Rightarrow> real \<Rightarrow> real \<Rightarrow> real" where
  "calc_d1 r S K T sigma q = (ln (S / K) + (r - q + sigma ^ 2 / 2) * T) / (sigma * sqrt T)"

definition calc_d2 :: "real \<Rightarrow> real \<Rightarrow> real \<Rightarrow> real" where
  "calc_d2 d1 sigma T = d1 - sigma * sqrt T"

text \<open>The nested subfunctions close over the arguments and over \<open>d1\<close>, \<open>d2\<close>; here they take
  what they read as parameters.\<close>

definition calc_delta :: "string \<Rightarrow> real \<Rightarrow> real option" where
  "calc_delta option_type d1 =
     (if option_type = ''C'' then Some (norm_cdf d1 0 1)
      else if option_type = ''P'' then Some (- norm_cdf (- d1) 0 1)
      else None)"

definition calc_gamma :: "real \<Rightarrow> real \<Rightarrow> real \<Rightarrow> real \<Rightarrow> real" where
  "calc_gamma S T sigma d1 = norm_pdf d1 0 1 / (S * sigma * sqrt T)"

definition calc_vega :: "real \<Rightarrow> real \<Rightarrow> real \<Rightarrow> real" where
  "calc_vega S T d1 = (S * norm_pdf d1 0 1 * sqrt T) * (1 / 100)"

definition calc_theta ::
  "real \<Rightarrow> real \<Rightarrow> real \<Rightarrow> real \<Rightarrow> real \<Rightarrow> string \<Rightarrow> real \<Rightarrow> real \<Rightarrow> real \<Rightarrow> real option" where
  "calc_theta r S K T sigma option_type q d1 d2 =
     (if option_type = ''C'' then
        Some ((- S * norm_pdf d1 0 1 * sigma / (2 * sqrt T) + q * S * norm_cdf d1 0 1
               - r * K * exp (- r * T) * norm_cdf d2 0 1) / 252)
      else if option_type = ''P'' then
        Some ((- S * norm_pdf d1 0 1 * sigma / (2 * sqrt T) - q * S * norm_cdf (- d1) 0 1
               + r * K * exp (- r * T) * norm_cdf (- d2) 0 1) / 252)
      else None)"

definition calc_rho :: "real \<Rightarrow> real \<Rightarrow> real \<Rightarrow> string \<Rightarrow> real \<Rightarrow> real option" where
  "calc_rho r K T option_type d2 =
     (if option_type = ''C'' then Some ((K * T * exp (- r * T) * norm_cdf d2 0 1) * (1 / 100))
      else if option_type = ''P'' then
        Some ((- K * T * exp (- r * T) * norm_cdf (- d2) 0 1) * (1 / 100))
      else None)"

definition invalid_option_type_message :: string where
  "invalid_option_type_message =
     ''Invalid option type! Please confirm option type either '' @ [CHR 0x27] @ ''C''
     @ [CHR 0x27] @ '' for Call option or '' @ [CHR 0x27] @ ''P'' @ [CHR 0x27]
     @ '' for Put option''"

text \<open>The body of the \<^verbatim>\<open>try\<close> statement: the lines printed, and the exception that ended it,
  if one did.\<close>

definition try_body ::
  "real \<Rightarrow> real \<Rightarrow> real \<Rightarrow> real \<Rightarrow> real \<Rightarrow> string \<Rightarrow> real \<Rightarrow> real \<Rightarrow> real
     \<Rightarrow> line list \<times> py_exn option" where
  "try_body r S K T sigma option_type q d1 d2 =
     (let delta = calc_delta option_type d1;
          gamma = calc_gamma S T sigma d1;
          vega = calc_vega S T d1;
          theta = calc_theta r S K T sigma option_type q d1 d2;
          rho = calc_rho r K T option_type d2
      in if option_type = ''C'' then
           (let price = S * exp (- q * T) * norm_cdf d1 0 1 - K * exp (- r * T) * norm_cdf d2 0 1
            in run_prints
                 [Num ''Call Option Price: '' (Some price),
                  Lit ''-----------------'',
                  Num ''Call Delta: '' delta,
                  Num ''Gamma: '' (Some gamma),
                  Num ''Vega: '' (Some vega),
                  Num ''Call Theta: '' theta,
                  Num ''Call Rho: '' rho] [])
         else if option_type = ''P'' then
           (let price = K * exp (- r * T) * norm_cdf (- d2) 0 1 - S * exp (- q * T) * norm_cdf (- d1) 0 1
            in run_prints
                 [Num ''Put Option Price: '' (Some price),
                  Lit ''-----------------'',
                  Num ''Put Delta: '' delta,
                  Num ''Gamma: '' (Some gamma),
                  Num ''Vega: '' (Some vega),
                  Num ''Put Theta: '' theta,
                  Num ''Put Rho: '' rho] [])
         else ([], Some (ValueError invalid_option_type_message)))"

text \<open>
  Which division the expression \<^verbatim>\<open>S / K\<close> is. When \<open>S\<close> and \<open>K\<close> are both builtin numbers (as in
  the recorded call \<^verbatim>\<open>BlackScholes(0.05, 50, 48, 0.5, 0.4, "C", 0.02)\<close>) it is Python's, which
  raises \<^verbatim>\<open>ZeroDivisionError\<close> on a zero divisor. When either is a \<^verbatim>\<open>numpy.float64\<close> (as in the
  notebook's two calls with \<^verbatim>\<open>current_price\<close>) it is numpy's, which raises nothing: it
  warns and gives an infinity or \<^verbatim>\<open>nan\<close>.
\<close>

datatype division = Builtin_division | Numpy_division

text \<open>
  The whole function, called with every argument given. \<^verbatim>\<open>S / K\<close> is evaluated first, outside
  the \<^verbatim>\<open>try\<close>. Every other division has a numpy float as divisor: a zero divisor there, the
  logarithm of a non-positive number and the square root of a negative one raise nothing
  (they give \<^verbatim>\<open>nan\<close> or an infinity, where the reals of this model give some number), so the
  numbers of the model are those of the code where \<open>0 < S / K\<close>, \<open>0 < T\<close> and \<open>sigma \<noteq> 0\<close>;
  elsewhere the model says which lines are printed, not which numbers. Overflow is not
  modelled: in particular \<^verbatim>\<open>sigma ** 2\<close> on a builtin float beyond about \<open>1.3e154\<close> raises
  \<^verbatim>\<open>OverflowError\<close> in Python, which this model does not have. The handler catches
  \<^verbatim>\<open>ValueError\<close> only, and prints it.
\<close>

definition BlackScholes ::
  "division \<Rightarrow> real \<Rightarrow> real \<Rightarrow> real \<Rightarrow> real \<Rightarrow> real \<Rightarrow> string \<Rightarrow> real \<Rightarrow> outcome" where
  "BlackScholes dv r S K T sigma option_type q =
     (if dv = Builtin_division \<and> K = 0 then Raised ZeroDivisionError []
      else
        (let d1 = calc_d1 r S K T sigma q;
             d2 = calc_d2 d1 sigma T
         in case try_body r S K T sigma option_type q d1 d2 of
              (out, None) \<Rightarrow> Returned PyNone out
            | (out, Some (ValueError msg)) \<Rightarrow> Returned PyNone (out @ [Text msg])
            | (out, Some e) \<Rightarrow> Raised e out))"


text \<open>The call the notebook records with its output:
  \<^verbatim>\<open>BlackScholes(0.05, 50, 48, 0.5, 0.4, "C", 0.02)\<close>. Its \<open>d1\<close> and \<open>d2\<close>:\<close>

definition ref_d1 :: real where
  "ref_d1 = calc_d1 (1 / 20) 50 48 (1 / 2) (2 / 5) (1 / 50)"

definition ref_d2 :: real where
  "ref_d2 = calc_d2 ref_d1 (2 / 5) (1 / 2)"

text \<open>Reading a printed number back by its label.\<close>

fun find_value :: "string \<Rightarrow> line list \<Rightarrow> real option" where
  "find_value l [] = None"
| "find_value l (Text s # rest) = find_value l rest"
| "find_value l (Fixed5 l' v # rest) = (if l = l' then Some v else find_value l rest)"

fun stdout_of :: "outcome \<Rightarrow> line list" where
  "stdout_of (Returned v out) = out"
| "stdout_of (Raised e out) = out"

definition printed :: "string \<Rightarrow> outcome \<Rightarrow> real option" where
  "printed l oc = find_value l (stdout_of oc)"

fun returned :: "outcome \<Rightarrow> py_value option" where
  "returned (Returned v out) = Some v"
| "returned (Raised e out) = None"

fun raised :: "outcome \<Rightarrow> py_exn option" where
  "raised (Returned v out) = None"
| "raised (Raised e out) = Some e"

fun label_of :: "line \<Rightarrow> string" where
  "label_of (Text s) = s"
| "label_of (Fixed5 l v) = l"

text \<open>The seven lines of a complete result, by what they start with.\<close>

definition call_labels :: "string list" where
  "call_labels =
     [''Call Option Price: '', ''-----------------'', ''Call Delta: '', ''Gamma: '', ''Vega: '',
      ''Call Theta: '', ''Call Rho: '']"

definition put_labels :: "string list" where
  "put_labels =
     [''Put Option Price: '', ''-----------------'', ''Put Delta: '', ''Gamma: '', ''Vega: '',
      ''Put Theta: '', ''Put Rho: '']"

section \<open>The formulas of the specification\<close>

definition spec_d1 :: "real \<Rightarrow> real \<Rightarrow> real \<Rightarrow> real \<Rightarrow> real \<Rightarrow> real \<Rightarrow> real" where
  "spec_d1 r S K T \<sigma> q = (ln (S / K) + (r - q + \<sigma>\<^sup>2 / 2) * T) / (\<sigma> * sqrt T)"

definition spec_d2 :: "real \<Rightarrow> real \<Rightarrow> real \<Rightarrow> real \<Rightarrow> real \<Rightarrow> real \<Rightarrow> real" where
  "spec_d2 r S K T \<sigma> q = spec_d1 r S K T \<sigma> q - \<sigma> * sqrt T"

definition spec_call_price :: "real \<Rightarrow> real \<Rightarrow> real \<Rightarrow> real \<Rightarrow> real \<Rightarrow> real \<Rightarrow> real" where
  "spec_call_price r S K T \<sigma> q =
     S * exp (- (q * T)) * std_norm_cdf (spec_d1 r S K T \<sigma> q)
     - K * exp (- (r * T)) * std_norm_cdf (spec_d2 r S K T \<sigma> q)"

definition spec_put_price :: "real \<Rightarrow> real \<Rightarrow> real \<Rightarrow> real \<Rightarrow> real \<Rightarrow> real \<Rightarrow> real" where
  "spec_put_price r S K T \<sigma> q =
     K * exp (- (r * T)) * std_norm_cdf (- spec_d2 r S K T \<sigma> q)
     - S * exp (- (q * T)) * std_norm_cdf (- spec_d1 r S K T \<sigma> q)"

definition spec_call_delta :: "real \<Rightarrow> real \<Rightarrow> real \<Rightarrow> real \<Rightarrow> real \<Rightarrow> real \<Rightarrow> real" where
  "spec_call_delta r S K T \<sigma> q = exp (- (q * T)) * std_norm_cdf (spec_d1 r S K T \<sigma> q)"

definition spec_gamma :: "real \<Rightarrow> real \<Rightarrow> real \<Rightarrow> real \<Rightarrow> real \<Rightarrow> real \<Rightarrow> real" where
  "spec_gamma r S K T \<sigma> q =
     exp (- (q * T)) * std_norm_pdf (spec_d1 r S K T \<sigma> q) / (S * \<sigma> * sqrt T)"

definition spec_vega :: "real \<Rightarrow> real \<Rightarrow> real \<Rightarrow> real \<Rightarrow> real \<Rightarrow> real \<Rightarrow> real" where
  "spec_vega r S K T \<sigma> q =
     1 / 100 * S * exp (- (q * T)) * std_norm_pdf (spec_d1 r S K T \<sigma> q) * sqrt T"

definition spec_call_theta :: "real \<Rightarrow> real \<Rightarrow> real \<Rightarrow> real \<Rightarrow> real \<Rightarrow> real \<Rightarrow> real" where
  "spec_call_theta r S K T \<sigma> q =
     1 / 252 * (- S * exp (- (q * T)) * std_norm_pdf (spec_d1 r S K T \<sigma> q) * \<sigma> / (2 * sqrt T)
                + q * S * exp (- (q * T)) * std_norm_cdf (spec_d1 r S K T \<sigma> q)
                - r * K * exp (- (r * T)) * std_norm_cdf (spec_d2 r S K T \<sigma> q))"

section \<open>Running the function\<close>

lemma BlackScholes_C:
  assumes "dv = Numpy_division \<or> K \<noteq> 0"
  shows "BlackScholes dv r S K T sigma ''C'' q =
    Returned PyNone
      [Fixed5 ''Call Option Price: ''
         (S * exp (- q * T) * norm_cdf (calc_d1 r S K T sigma q) 0 1
          - K * exp (- r * T) * norm_cdf (calc_d2 (calc_d1 r S K T sigma q) sigma T) 0 1),
       Text ''-----------------'',
       Fixed5 ''Call Delta: '' (norm_cdf (calc_d1 r S K T sigma q) 0 1),
       Fixed5 ''Gamma: '' (calc_gamma S T sigma (calc_d1 r S K T sigma q)),
       Fixed5 ''Vega: '' (calc_vega S T (calc_d1 r S K T sigma q)),
       Fixed5 ''Call Theta: ''
         ((- S * norm_pdf (calc_d1 r S K T sigma q) 0 1 * sigma / (2 * sqrt T)
           + q * S * norm_cdf (calc_d1 r S K T sigma q) 0 1
           - r * K * exp (- r * T) * norm_cdf (calc_d2 (calc_d1 r S K T sigma q) sigma T) 0 1) / 252),
       Fixed5 ''Call Rho: ''
         ((K * T * exp (- r * T) * norm_cdf (calc_d2 (calc_d1 r S K T sigma q) sigma T) 0 1)
          * (1 / 100))]"
  using assms
  by (cases dv)
    (simp_all add: BlackScholes_def try_body_def calc_delta_def calc_theta_def calc_rho_def Let_def)

lemma BlackScholes_P:
  assumes "dv = Numpy_division \<or> K \<noteq> 0"
  shows "BlackScholes dv r S K T sigma ''P'' q =
    Returned PyNone
      [Fixed5 ''Put Option Price: ''
         (K * exp (- r * T) * norm_cdf (- calc_d2 (calc_d1 r S K T sigma q) sigma T) 0 1
          - S * exp (- q * T) * norm_cdf (- calc_d1 r S K T sigma q) 0 1),
       Text ''-----------------'',
       Fixed5 ''Put Delta: '' (- norm_cdf (- calc_d1 r S K T sigma q) 0 1),
       Fixed5 ''Gamma: '' (calc_gamma S T sigma (calc_d1 r S K T sigma q)),
       Fixed5 ''Vega: '' (calc_vega S T (calc_d1 r S K T sigma q)),
       Fixed5 ''Put Theta: ''
         ((- S * norm_pdf (calc_d1 r S K T sigma q) 0 1 * sigma / (2 * sqrt T)
           - q * S * norm_cdf (- calc_d1 r S K T sigma q) 0 1
           + r * K * exp (- r * T) * norm_cdf (- calc_d2 (calc_d1 r S K T sigma q) sigma T) 0 1) / 252),
       Fixed5 ''Put Rho: ''
         ((- K * T * exp (- r * T) * norm_cdf (- calc_d2 (calc_d1 r S K T sigma q) sigma T) 0 1)
          * (1 / 100))]"
  using assms
  by (cases dv)
    (simp_all add: BlackScholes_def try_body_def calc_delta_def calc_theta_def calc_rho_def Let_def)

lemma BlackScholes_other:
  assumes "dv = Numpy_division \<or> K \<noteq> 0" and "option_type \<noteq> ''C''" and "option_type \<noteq> ''P''"
  shows "BlackScholes dv r S K T sigma option_type q =
    Returned PyNone [Text invalid_option_type_message]"
  using assms by (cases dv) (simp_all add: BlackScholes_def try_body_def Let_def)

lemma calc_d1_spec: "calc_d1 r S K T sigma q = spec_d1 r S K T sigma q"
  by (simp add: calc_d1_def spec_d1_def)

lemma calc_d2_spec: "calc_d2 (spec_d1 r S K T sigma q) sigma T = spec_d2 r S K T sigma q"
  by (simp add: calc_d2_def spec_d2_def)

lemma norm_cdf_std: "norm_cdf x 0 1 = std_norm_cdf x"
  by (simp add: norm_cdf_def)

lemma norm_pdf_std: "norm_pdf x 0 1 = std_norm_pdf x"
  by (simp add: norm_pdf_def)

section \<open>The series of the cumulative distribution function\<close>

lemma cdf_term_abs:
  "\<bar>cdf_coeff n * x ^ (2 * n + 1)\<bar> \<le> \<bar>x\<bar> * (inverse (fact n) * (x\<^sup>2 / 2) ^ n)"
proof -
  have "\<bar>cdf_coeff n * x ^ (2 * n + 1)\<bar>
      = \<bar>x\<bar> * (inverse (fact n) * (x\<^sup>2 / 2) ^ n) / real (2 * n + 1)"
    by (simp add: cdf_coeff_def abs_mult power_abs power_mult power_divide divide_simps
        flip: power2_eq_square)
  also have "\<dots> \<le> \<bar>x\<bar> * (inverse (fact n) * (x\<^sup>2 / 2) ^ n) / 1"
    by (intro divide_left_mono mult_nonneg_nonneg) simp_all
  finally show ?thesis by simp
qed

lemma summable_cdf_series: "summable (\<lambda>n. cdf_coeff n * x ^ (2 * n + 1))"
proof (rule summable_comparison_test)
  show "\<exists>N. \<forall>n\<ge>N. norm (cdf_coeff n * x ^ (2 * n + 1)) \<le> \<bar>x\<bar> * (inverse (fact n) * (x\<^sup>2 / 2) ^ n)"
    using cdf_term_abs by (simp only: real_norm_def) blast
  show "summable (\<lambda>n. \<bar>x\<bar> * (inverse (fact n) * (x\<^sup>2 / 2) ^ n))"
    by (intro summable_mult summable_exp)
qed

lemma cdf_series_minus: "cdf_series (- x) = - cdf_series x"
proof -
  have "cdf_series (- x) = (\<Sum>n. - (cdf_coeff n * x ^ (2 * n + 1)))"
    by (simp add: cdf_series_def)
  also have "\<dots> = - cdf_series x"
    unfolding cdf_series_def by (rule suminf_minus [OF summable_cdf_series])
  finally show ?thesis .
qed

lemma std_norm_cdf_symmetry: "std_norm_cdf x + std_norm_cdf (- x) = 1"
  by (simp add: std_norm_cdf_def cdf_series_minus)

lemma std_norm_cdf_0: "std_norm_cdf 0 = 1 / 2"
  by (simp add: std_norm_cdf_def cdf_series_def)

text \<open>The modelled cumulative distribution function is the antiderivative of the density
  that takes the value \<open>1/2\<close> at \<open>0\<close>.\<close>

lemma cdf_power_series_sums: "(\<lambda>k. cdf_power_coeff k * x ^ k) sums cdf_series x"
proof -
  have "(\<lambda>n. cdf_coeff n * x ^ (2 * n + 1)) sums cdf_series x"
    unfolding cdf_series_def by (rule summable_sums [OF summable_cdf_series])
  then have "(\<lambda>k. if even k then 0 else cdf_coeff ((k - 1) div 2) * x ^ (2 * ((k - 1) div 2) + 1))
      sums cdf_series x"
    by (rule sums_if')
  moreover have "(if even k then 0 else cdf_coeff ((k - 1) div 2) * x ^ (2 * ((k - 1) div 2) + 1))
      = cdf_power_coeff k * x ^ k" for k
  proof (cases "even k")
    case True
    then show ?thesis by (simp add: cdf_power_coeff_def)
  next
    case False
    then have "2 * ((k - 1) div 2) + 1 = k" by (auto elim!: oddE)
    with False show ?thesis by (simp add: cdf_power_coeff_def)
  qed
  ultimately show ?thesis by simp
qed

lemma cdf_series_power: "cdf_series = (\<lambda>x. \<Sum>k. cdf_power_coeff k * x ^ k)"
  using cdf_power_series_sums by (auto simp: sums_iff)

lemma diffs_cdf_power_coeff:
  "diffs cdf_power_coeff k * x ^ k
     = (if even k then (- (x\<^sup>2) / 2) ^ (k div 2) /\<^sub>R fact (k div 2) else 0)"
proof (cases "even k")
  case True
  then obtain m where k: "k = 2 * m" by (auto elim!: evenE)
  have c: "diffs cdf_power_coeff (2 * m) = (- 1) ^ m / (2 ^ m * fact m)"
    by (simp add: diffs_def cdf_power_coeff_def cdf_coeff_def)
  have p: "(- (x\<^sup>2) / 2) ^ m = (- 1) ^ m * x ^ (2 * m) / 2 ^ m"
  proof -
    have "(- (x\<^sup>2) / 2) ^ m = ((- 1) * (x\<^sup>2 / 2)) ^ m" by simp
    also have "\<dots> = (- 1) ^ m * (x\<^sup>2 / 2) ^ m" by (rule power_mult_distrib)
    also have "\<dots> = (- 1) ^ m * x ^ (2 * m) / 2 ^ m" by (simp add: power_divide power_mult)
    finally show ?thesis .
  qed
  have "(- (x\<^sup>2) / 2) ^ m /\<^sub>R fact m = ((- 1) ^ m * x ^ (2 * m) / 2 ^ m) / fact m"
    unfolding p by (simp add: field_simps)
  also have "\<dots> = (- 1) ^ m / (2 ^ m * fact m) * x ^ (2 * m)"
    by simp
  finally have main: "diffs cdf_power_coeff (2 * m) * x ^ (2 * m) = (- (x\<^sup>2) / 2) ^ m /\<^sub>R fact m"
    unfolding c by (rule sym)
  have e: "even (2 * m)" by simp
  have d: "2 * m div 2 = m" by simp
  show ?thesis
    unfolding k if_P [OF e] d by (rule main)
next
  case False
  then show ?thesis by (simp add: diffs_def cdf_power_coeff_def)
qed

lemma DERIV_cdf_series: "DERIV cdf_series x :> exp (- (x\<^sup>2) / 2)"
proof -
  have "(\<lambda>m. (- (x\<^sup>2) / 2) ^ m /\<^sub>R fact m) sums exp (- (x\<^sup>2) / 2)"
    by (rule exp_converges)
  from sums_if [OF sums_zero this]
  have "(\<lambda>k. diffs cdf_power_coeff k * x ^ k) sums exp (- (x\<^sup>2) / 2)"
    by (simp add: diffs_cdf_power_coeff)
  then have e: "(\<Sum>k. diffs cdf_power_coeff k * x ^ k) = exp (- (x\<^sup>2) / 2)"
    by (simp add: sums_iff)
  have "((\<lambda>x. \<Sum>k. cdf_power_coeff k * x ^ k) has_field_derivative
          (\<Sum>k. diffs cdf_power_coeff k * x ^ k)) (at x)"
    by (rule termdiffs_strong_converges_everywhere) (rule sums_summable [OF cdf_power_series_sums])
  then show ?thesis
    by (simp only: e flip: cdf_series_power)
qed

lemma DERIV_std_norm_cdf: "DERIV std_norm_cdf x :> std_norm_pdf x"
proof -
  have "DERIV (\<lambda>x. 1 / 2 + cdf_series x / sqrt (2 * pi)) x
      :> 0 + exp (- (x\<^sup>2) / 2) / sqrt (2 * pi)"
    by (rule DERIV_add [OF DERIV_const DERIV_cdivide [OF DERIV_cdf_series]])
  then show ?thesis
    by (simp add: std_norm_cdf_def [abs_def] std_norm_pdf_def)
qed

section \<open>Enclosures of \<open>exp\<close>, \<open>ln\<close>, the square root and \<open>\<pi>\<close>\<close>

lemma exp_taylor_bound:
  fixes x :: real
  assumes "\<bar>x\<bar> \<le> 1"
  shows "\<bar>exp x - (\<Sum>m<n. x ^ m / fact m)\<bar> \<le> 3 * \<bar>x\<bar> ^ n / fact n"
proof -
  obtain t where t: "\<bar>t\<bar> \<le> \<bar>x\<bar>"
    and e: "exp x = (\<Sum>m<n. x ^ m / fact m) + (exp t / fact n) * x ^ n"
    using Maclaurin_exp_le [of x n] by blast
  have "exp t \<le> exp 1" using t assms by simp
  also have "\<dots> \<le> 3" by (rule exp_le)
  finally have t3: "exp t \<le> 3" .
  have "\<bar>exp x - (\<Sum>m<n. x ^ m / fact m)\<bar> = exp t * (\<bar>x\<bar> ^ n / fact n)"
    by (simp add: e abs_mult power_abs)
  also have "\<dots> \<le> 3 * (\<bar>x\<bar> ^ n / fact n)"
    by (intro mult_right_mono t3) simp
  finally show ?thesis by simp
qed

lemma exp_taylor6:
  fixes x :: real
  assumes "\<bar>x\<bar> \<le> 1"
  shows "\<bar>exp x - (1 + x + x^2 / 2 + x^3 / 6 + x^4 / 24 + x^5 / 120)\<bar> \<le> x^6 / 240"
proof -
  have S: "(\<Sum>m<6. x ^ m / fact m) = 1 + x + x^2 / 2 + x^3 / 6 + x^4 / 24 + x^5 / 120"
    by (simp add: eval_nat_numeral lessThan_Suc)
  have "\<bar>x\<bar> ^ 6 = x ^ 6"
    by (simp add: power_abs [symmetric] del: power_abs)
  moreover have "fact 6 = (720::real)"
    by (simp add: eval_nat_numeral)
  ultimately have B: "3 * \<bar>x\<bar> ^ 6 / fact 6 = x^6 / 240"
    by simp
  show ?thesis
    using exp_taylor_bound [OF assms, of 6] unfolding S B .
qed

lemma exp_upper6:
  fixes x :: real
  assumes "\<bar>x\<bar> \<le> 1"
  shows "exp x \<le> 1 + x + x^2 / 2 + x^3 / 6 + x^4 / 24 + x^5 / 120 + x^6 / 240"
  using exp_taylor6 [OF assms] by linarith

lemma exp_lower6:
  fixes x :: real
  assumes "\<bar>x\<bar> \<le> 1"
  shows "1 + x + x^2 / 2 + x^3 / 6 + x^4 / 24 + x^5 / 120 - x^6 / 240 \<le> exp x"
  using exp_taylor6 [OF assms] by linarith

lemma exp_le_num:
  fixes x c :: real
  assumes "\<bar>x\<bar> \<le> 1"
    and "1 + x + x^2 / 2 + x^3 / 6 + x^4 / 24 + x^5 / 120 + x^6 / 240 \<le> c"
  shows "exp x \<le> c"
  using exp_upper6 [OF assms(1)] assms(2) by linarith

lemma exp_ge_num:
  fixes x c :: real
  assumes "\<bar>x\<bar> \<le> 1"
    and "c \<le> 1 + x + x^2 / 2 + x^3 / 6 + x^4 / 24 + x^5 / 120 - x^6 / 240"
  shows "c \<le> exp x"
  using exp_lower6 [OF assms(1)] assms(2) by linarith

lemma eq_bounds: "9900498337 / 10000000000 \<le> exp (- (1 / 100) :: real)"
  "exp (- (1 / 100) :: real) \<le> 9900498338 / 10000000000"
  by (rule exp_ge_num, simp, simp add: power_divide) (rule exp_le_num, simp, simp add: power_divide)

lemma er_bounds: "9753099120 / 10000000000 \<le> exp (- (1 / 40) :: real)"
  "exp (- (1 / 40) :: real) \<le> 9753099121 / 10000000000"
  by (rule exp_ge_num, simp, simp add: power_divide) (rule exp_le_num, simp, simp add: power_divide)

lemma sqrt_half_bounds: "70710678118 / 100000000000 \<le> sqrt (1 / 2 :: real)"
  "sqrt (1 / 2 :: real) \<le> 70710678119 / 100000000000"
  by (rule real_le_rsqrt, simp add: power_divide) (rule real_le_lsqrt, simp_all add: power_divide)

lemma ln_bounds: "4082199 / 100000000 \<le> ln (25 / 24 :: real)"
  "ln (25 / 24 :: real) \<le> 4082200 / 100000000"
proof -
  have "exp (4082199 / 100000000 :: real) \<le> 25 / 24"
    by (rule exp_le_num, simp, simp add: power_divide)
  then have "ln (exp (4082199 / 100000000 :: real)) \<le> ln (25 / 24)"
    by (subst ln_le_cancel_iff) simp_all
  then show "4082199 / 100000000 \<le> ln (25 / 24 :: real)"
    by (simp only: ln_exp)
  have "25 / 24 \<le> exp (4082200 / 100000000 :: real)"
    by (rule exp_ge_num, simp, simp add: power_divide)
  then have "ln (25 / 24 :: real) \<le> ln (exp (4082200 / 100000000))"
    by (subst ln_le_cancel_iff) simp_all
  then show "ln (25 / 24 :: real) \<le> 4082200 / 100000000"
    by (simp only: ln_exp)
qed

lemma arctan_partial_sums:
  fixes x :: real
  assumes "0 \<le> x" and "x \<le> 1"
  shows "(\<Sum>i<2 * n. (- 1) ^ i * (1 / real (i * 2 + 1) * x ^ (i * 2 + 1))) \<le> arctan x"
    and "arctan x \<le> (\<Sum>i<2 * n + 1. (- 1) ^ i * (1 / real (i * 2 + 1) * x ^ (i * 2 + 1)))"
proof -
  let ?a = "\<lambda>i. 1 / real (i * 2 + 1) * x ^ (i * 2 + 1)"
  from assms have ax: "\<bar>x\<bar> \<le> 1" by simp
  have z: "?a \<longlonglongrightarrow> 0" by (rule zeroseq_arctan_series [OF ax])
  have p: "0 \<le> ?a i" for i using assms by simp
  have m: "?a (Suc i) \<le> ?a i" for i
  proof -
    have "x ^ (Suc i * 2 + 1) \<le> x ^ (i * 2 + 1)"
      using assms by (intro power_decreasing) simp_all
    moreover have "1 / real (Suc i * 2 + 1) \<le> 1 / real (i * 2 + 1)"
      by (intro divide_left_mono) simp_all
    ultimately show ?thesis
      using assms by (intro mult_mono) simp_all
  qed
  have s: "arctan x = (\<Sum>i. (- 1) ^ i * ?a i)" by (rule arctan_series [OF ax])
  show "(\<Sum>i<2 * n. (- 1) ^ i * ?a i) \<le> arctan x"
    unfolding s by (rule summable_Leibniz'(2) [OF z p m])
  show "arctan x \<le> (\<Sum>i<2 * n + 1. (- 1) ^ i * ?a i)"
    unfolding s by (rule summable_Leibniz'(4) [OF z p m])
qed

lemma arctan_fifth_bounds:
  "1973955597 / 10000000000 \<le> arctan (1 / 5 :: real)"
  "arctan (1 / 5 :: real) \<le> 1973955599 / 10000000000"
proof -
  have "(1973955597 / 10000000000 :: real)
      \<le> (\<Sum>i<2 * 3. (- 1) ^ i * (1 / real (i * 2 + 1) * (1 / 5) ^ (i * 2 + 1)))"
    by (simp add: eval_nat_numeral lessThan_Suc power_divide)
  also have "\<dots> \<le> arctan (1 / 5)"
    by (rule arctan_partial_sums) simp_all
  finally show "1973955597 / 10000000000 \<le> arctan (1 / 5 :: real)" .
  have "arctan (1 / 5 :: real)
      \<le> (\<Sum>i<2 * 3 + 1. (- 1) ^ i * (1 / real (i * 2 + 1) * (1 / 5) ^ (i * 2 + 1)))"
    by (rule arctan_partial_sums) simp_all
  also have "\<dots> \<le> 1973955599 / 10000000000"
    by (simp add: eval_nat_numeral lessThan_Suc power_divide)
  finally show "arctan (1 / 5 :: real) \<le> 1973955599 / 10000000000" .
qed

lemma arctan_239_bounds:
  "41840760 / 10000000000 \<le> arctan (1 / 239 :: real)"
  "arctan (1 / 239 :: real) \<le> 41840761 / 10000000000"
proof -
  have "(41840760 / 10000000000 :: real)
      \<le> (\<Sum>i<2 * 1. (- 1) ^ i * (1 / real (i * 2 + 1) * (1 / 239) ^ (i * 2 + 1)))"
    by (simp add: eval_nat_numeral lessThan_Suc power_divide)
  also have "\<dots> \<le> arctan (1 / 239)"
    by (rule arctan_partial_sums) simp_all
  finally show "41840760 / 10000000000 \<le> arctan (1 / 239 :: real)" .
  have "arctan (1 / 239 :: real)
      \<le> (\<Sum>i<2 * 1 + 1. (- 1) ^ i * (1 / real (i * 2 + 1) * (1 / 239) ^ (i * 2 + 1)))"
    by (rule arctan_partial_sums) simp_all
  also have "\<dots> \<le> 41840761 / 10000000000"
    by (simp add: eval_nat_numeral lessThan_Suc power_divide)
  finally show "arctan (1 / 239 :: real) \<le> 41840761 / 10000000000" .
qed

lemma pi_bounds: "31415926 / 10000000 \<le> pi" "pi \<le> 31415927 / 10000000"
  using machin arctan_fifth_bounds arctan_239_bounds by linarith+

section \<open>Enclosures of the cumulative distribution function\<close>

lemma sqrt_2pi_bounds: "250662825 / 100000000 \<le> sqrt (2 * pi)" "sqrt (2 * pi) \<le> 250662830 / 100000000"
proof -
  have "(250662825 / 100000000 :: real)\<^sup>2 \<le> 2 * (31415926 / 10000000)"
    by (simp add: power_divide)
  also have "\<dots> \<le> 2 * pi" using pi_bounds(1) by simp
  finally show "250662825 / 100000000 \<le> sqrt (2 * pi)" by (rule real_le_rsqrt)
  have "2 * pi \<le> 2 * (31415927 / 10000000)" using pi_bounds(2) by simp
  also have "\<dots> \<le> (250662830 / 100000000 :: real)\<^sup>2"
    by (simp add: power_divide)
  finally show "sqrt (2 * pi) \<le> 250662830 / 100000000"
    by (intro real_le_lsqrt) simp_all
qed

lemma cdf_term_alt: "cdf_coeff n * x ^ (2 * n + 1) = (- 1) ^ n * cdf_abs_term x n"
  by (simp add: cdf_coeff_def cdf_abs_term_def)

lemma cdf_series_partial_sums:
  fixes x :: real
  assumes "0 \<le> x" and "x \<le> 1"
  shows "(\<Sum>i<2 * n. (- 1) ^ i * cdf_abs_term x i) \<le> cdf_series x"
    and "cdf_series x \<le> (\<Sum>i<2 * n + 1. (- 1) ^ i * cdf_abs_term x i)"
proof -
  have p: "0 \<le> cdf_abs_term x i" for i
    using assms by (simp add: cdf_abs_term_def)
  have "(\<lambda>n. cdf_coeff n * x ^ (2 * n + 1)) \<longlonglongrightarrow> 0"
    by (rule summable_LIMSEQ_zero [OF summable_cdf_series])
  then have "(\<lambda>n. \<bar>cdf_coeff n * x ^ (2 * n + 1)\<bar>) \<longlonglongrightarrow> 0"
    by (simp only: tendsto_rabs_zero_iff)
  moreover have "\<bar>cdf_coeff n * x ^ (2 * n + 1)\<bar> = cdf_abs_term x n" for n
  proof -
    have "\<bar>cdf_coeff n * x ^ (2 * n + 1)\<bar> = \<bar>(- 1) ^ n * cdf_abs_term x n\<bar>"
      by (simp only: cdf_term_alt)
    also have "\<dots> = \<bar>cdf_abs_term x n\<bar>"
      by (simp add: abs_mult power_abs)
    also have "\<dots> = cdf_abs_term x n"
      using p [of n] by simp
    finally show ?thesis .
  qed
  ultimately have z: "cdf_abs_term x \<longlonglongrightarrow> 0" by simp
  have m: "cdf_abs_term x (Suc i) \<le> cdf_abs_term x i" for i
    unfolding cdf_abs_term_def
  proof (rule frac_le)
    show "0 \<le> x ^ (2 * i + 1)" using assms by simp
    show "x ^ (2 * Suc i + 1) \<le> x ^ (2 * i + 1)"
      using assms by (intro power_decreasing) simp_all
    show "0 < 2 ^ i * fact i * real (2 * i + 1)" by simp
    have "(2::real) ^ i * fact i * real (2 * i + 1) \<le> 2 ^ Suc i * fact (Suc i) * real (2 * Suc i + 1)"
      by (intro mult_mono) (simp_all add: fact_mono)
    then show "(2::real) ^ i * fact i * real (2 * i + 1) \<le> 2 ^ Suc i * fact (Suc i) * real (2 * Suc i + 1)" .
  qed
  have s: "cdf_series x = (\<Sum>i. (- 1) ^ i * cdf_abs_term x i)"
    by (simp only: cdf_series_def cdf_term_alt)
  show "(\<Sum>i<2 * n. (- 1) ^ i * cdf_abs_term x i) \<le> cdf_series x"
    unfolding s by (rule summable_Leibniz'(2) [OF z p m])
  show "cdf_series x \<le> (\<Sum>i<2 * n + 1. (- 1) ^ i * cdf_abs_term x i)"
    unfolding s by (rule summable_Leibniz'(4) [OF z p m])
qed

lemma cdf_series_lower4:
  fixes x :: real
  assumes "0 \<le> x" and "x \<le> 1"
  shows "x - x^3 / 6 + x^5 / 40 - x^7 / 336 \<le> cdf_series x"
proof -
  have "(\<Sum>i<2 * 2. (- 1) ^ i * cdf_abs_term x i) = x - x^3 / 6 + x^5 / 40 - x^7 / 336"
    by (simp add: cdf_abs_term_def eval_nat_numeral lessThan_Suc)
  then show ?thesis
    using cdf_series_partial_sums(1) [OF assms, of 2] by simp
qed

lemma cdf_series_upper5:
  fixes x :: real
  assumes "0 \<le> x" and "x \<le> 1"
  shows "cdf_series x \<le> x - x^3 / 6 + x^5 / 40 - x^7 / 336 + x^9 / 3456"
proof -
  have "(\<Sum>i<2 * 2 + 1. (- 1) ^ i * cdf_abs_term x i)
      = x - x^3 / 6 + x^5 / 40 - x^7 / 336 + x^9 / 3456"
    by (simp add: cdf_abs_term_def eval_nat_numeral lessThan_Suc)
  then show ?thesis
    using cdf_series_partial_sums(2) [OF assms, of 2] by simp
qed

lemma cdf_series_enclosure:
  fixes x lo hi :: real
  assumes "0 \<le> lo" and "lo \<le> x" and "x \<le> hi" and "hi \<le> 1"
  shows "lo - hi^3 / 6 + lo^5 / 40 - hi^7 / 336 \<le> cdf_series x"
    and "cdf_series x \<le> hi - lo^3 / 6 + hi^5 / 40 - lo^7 / 336 + hi^9 / 3456"
proof -
  from assms have x: "0 \<le> x" "x \<le> 1" by simp_all
  have lo: "lo ^ k \<le> x ^ k" for k using assms by (intro power_mono) simp_all
  have hi: "x ^ k \<le> hi ^ k" for k using assms x by (intro power_mono) simp_all
  show "lo - hi^3 / 6 + lo^5 / 40 - hi^7 / 336 \<le> cdf_series x"
    using cdf_series_lower4 [OF x] lo [of 5] hi [of 3] hi [of 7] assms(2) by linarith
  show "cdf_series x \<le> hi - lo^3 / 6 + hi^5 / 40 - lo^7 / 336 + hi^9 / 3456"
    using cdf_series_upper5 [OF x] lo [of 3] lo [of 7] hi [of 5] hi [of 9] assms(3) by linarith
qed

section \<open>The recorded call, evaluated\<close>

lemma div_enclosure:
  fixes n d :: real
  assumes "nl \<le> n" and "n \<le> nh" and "dl \<le> d" and "d \<le> dh" and "0 \<le> nl" and "0 < dl"
  shows "nl / dh \<le> n / d" and "n / d \<le> nh / dl"
  using assms by (auto intro!: frac_le)

lemma mult_enclosure:
  fixes a b :: real
  assumes "al \<le> a" and "a \<le> ah" and "bl \<le> b" and "b \<le> bh" and "0 \<le> al" and "0 \<le> bl"
  shows "al * bl \<le> a * b" and "a * b \<le> ah * bh"
  using assms by (auto intro!: mult_mono)

lemma ref_d1_eq: "ref_d1 = (ln (25 / 24) + 11 / 200) / (2 / 5 * sqrt (1 / 2))"
  by (simp add: ref_d1_def calc_d1_def power_divide)

lemma ref_d1_bounds: "3387818945 / 10000000000 \<le> ref_d1" "ref_d1 \<le> 3387819300 / 10000000000"
proof -
  have n: "9582199 / 100000000 \<le> ln (25 / 24 :: real) + 11 / 200"
    "ln (25 / 24 :: real) + 11 / 200 \<le> 9582200 / 100000000"
    using ln_bounds by simp_all
  have d: "28284271247 / 100000000000 \<le> 2 / 5 * sqrt (1 / 2 :: real)"
    "2 / 5 * sqrt (1 / 2 :: real) \<le> 28284271248 / 100000000000"
    using sqrt_half_bounds by simp_all
  have "(3387818945 / 10000000000 :: real) \<le> (9582199 / 100000000) / (28284271248 / 100000000000)"
    by simp
  also have "\<dots> \<le> ref_d1"
    unfolding ref_d1_eq by (rule div_enclosure(1) [OF n d]) simp_all
  finally show "3387818945 / 10000000000 \<le> ref_d1" .
  have "ref_d1 \<le> (9582200 / 100000000) / (28284271247 / 100000000000)"
    unfolding ref_d1_eq by (rule div_enclosure(2) [OF n d]) simp_all
  also have "\<dots> \<le> 3387819300 / 10000000000"
    by simp
  finally show "ref_d1 \<le> 3387819300 / 10000000000" .
qed

lemma ref_d2_bounds: "559391820 / 10000000000 \<le> ref_d2" "ref_d2 \<le> 559392176 / 10000000000"
  using ref_d1_bounds sqrt_half_bounds by (simp_all add: ref_d2_def calc_d2_def)

lemma ref_series_d1:
  "3324114242 / 10000000000 \<le> cdf_series ref_d1" "cdf_series ref_d1 \<le> 3324114789 / 10000000000"
proof -
  let ?lo = "3387818945 / 10000000000 :: real" and ?hi = "3387819300 / 10000000000 :: real"
  have "3324114242 / 10000000000 \<le> ?lo - ?hi^3 / 6 + ?lo^5 / 40 - ?hi^7 / 336"
    by (simp add: power_divide)
  also have "\<dots> \<le> cdf_series ref_d1"
    by (rule cdf_series_enclosure(1) [OF _ ref_d1_bounds]) simp_all
  finally show "3324114242 / 10000000000 \<le> cdf_series ref_d1" .
  have "cdf_series ref_d1 \<le> ?hi - ?lo^3 / 6 + ?hi^5 / 40 - ?lo^7 / 336 + ?hi^9 / 3456"
    by (rule cdf_series_enclosure(2) [OF _ ref_d1_bounds]) simp_all
  also have "\<dots> \<le> 3324114789 / 10000000000"
    by (simp add: power_divide)
  finally show "cdf_series ref_d1 \<le> 3324114789 / 10000000000" .
qed

lemma ref_series_d2:
  "559100215 / 10000000000 \<le> cdf_series ref_d2" "cdf_series ref_d2 \<le> 559100573 / 10000000000"
proof -
  let ?lo = "559391820 / 10000000000 :: real" and ?hi = "559392176 / 10000000000 :: real"
  have "559100215 / 10000000000 \<le> ?lo - ?hi^3 / 6 + ?lo^5 / 40 - ?hi^7 / 336"
    by (simp add: power_divide)
  also have "\<dots> \<le> cdf_series ref_d2"
    by (rule cdf_series_enclosure(1) [OF _ ref_d2_bounds]) simp_all
  finally show "559100215 / 10000000000 \<le> cdf_series ref_d2" .
  have "cdf_series ref_d2 \<le> ?hi - ?lo^3 / 6 + ?hi^5 / 40 - ?lo^7 / 336 + ?hi^9 / 3456"
    by (rule cdf_series_enclosure(2) [OF _ ref_d2_bounds]) simp_all
  also have "\<dots> \<le> 559100573 / 10000000000"
    by (simp add: power_divide)
  finally show "cdf_series ref_d2 \<le> 559100573 / 10000000000" .
qed

lemma cdf_from_series:
  assumes "gl \<le> cdf_series x" and "cdf_series x \<le> gh" and "0 \<le> gl"
  shows "1 / 2 + gl / (250662830 / 100000000) \<le> std_norm_cdf x"
    and "std_norm_cdf x \<le> 1 / 2 + gh / (250662825 / 100000000)"
proof -
  show "1 / 2 + gl / (250662830 / 100000000) \<le> std_norm_cdf x"
    unfolding std_norm_cdf_def
    by (intro add_left_mono div_enclosure(1) [OF assms(1,2) sqrt_2pi_bounds assms(3)]) simp
  show "std_norm_cdf x \<le> 1 / 2 + gh / (250662825 / 100000000)"
    unfolding std_norm_cdf_def
    by (intro add_left_mono div_enclosure(2) [OF assms(1,2) sqrt_2pi_bounds assms(3)]) simp
qed

lemma ref_cdf_d1: "63261297 / 100000000 \<le> std_norm_cdf ref_d1" "std_norm_cdf ref_d1 \<le> 63261300 / 100000000"
proof -
  have "(63261297 / 100000000 :: real) \<le> 1 / 2 + (3324114242 / 10000000000) / (250662830 / 100000000)"
    by simp
  also have "\<dots> \<le> std_norm_cdf ref_d1"
    by (rule cdf_from_series(1) [OF ref_series_d1]) simp
  finally show "63261297 / 100000000 \<le> std_norm_cdf ref_d1" .
  have "std_norm_cdf ref_d1 \<le> 1 / 2 + (3324114789 / 10000000000) / (250662825 / 100000000)"
    by (rule cdf_from_series(2) [OF ref_series_d1]) simp
  also have "\<dots> \<le> 63261300 / 100000000"
    by simp
  finally show "std_norm_cdf ref_d1 \<le> 63261300 / 100000000" .
qed

lemma ref_cdf_d2: "52230487 / 100000000 \<le> std_norm_cdf ref_d2" "std_norm_cdf ref_d2 \<le> 52230489 / 100000000"
proof -
  have "(52230487 / 100000000 :: real) \<le> 1 / 2 + (559100215 / 10000000000) / (250662830 / 100000000)"
    by simp
  also have "\<dots> \<le> std_norm_cdf ref_d2"
    by (rule cdf_from_series(1) [OF ref_series_d2]) simp
  finally show "52230487 / 100000000 \<le> std_norm_cdf ref_d2" .
  have "std_norm_cdf ref_d2 \<le> 1 / 2 + (559100573 / 10000000000) / (250662825 / 100000000)"
    by (rule cdf_from_series(2) [OF ref_series_d2]) simp
  also have "\<dots> \<le> 52230489 / 100000000"
    by simp
  finally show "std_norm_cdf ref_d2 \<le> 52230489 / 100000000" .
qed

lemma ref_exp: "94422896 / 100000000 \<le> exp (- (ref_d1 ^ 2) / 2)" "exp (- (ref_d1 ^ 2) / 2) \<le> 94422898 / 100000000"
proof -
  have sq: "(3387818945 / 10000000000)^2 \<le> ref_d1 ^ 2" "ref_d1 ^ 2 \<le> (3387819300 / 10000000000)^2"
    using ref_d1_bounds by (auto intro!: power_mono)
  have x: "- (573865981 / 10000000000) \<le> - (ref_d1 ^ 2) / 2" "- (ref_d1 ^ 2) / 2 \<le> - (573865860 / 10000000000)"
    using sq by (simp_all add: power_divide)
  have "(94422896 / 100000000 :: real) \<le> exp (- (573865981 / 10000000000))"
    by (rule exp_ge_num, simp, simp add: power_divide)
  also have "\<dots> \<le> exp (- (ref_d1 ^ 2) / 2)"
    using x(1) by (simp only: exp_le_cancel_iff)
  finally show "94422896 / 100000000 \<le> exp (- (ref_d1 ^ 2) / 2)" .
  have "exp (- (ref_d1 ^ 2) / 2) \<le> exp (- (573865860 / 10000000000))"
    using x(2) by (simp only: exp_le_cancel_iff)
  also have "\<dots> \<le> 94422898 / 100000000"
    by (rule exp_le_num, simp, simp add: power_divide)
  finally show "exp (- (ref_d1 ^ 2) / 2) \<le> 94422898 / 100000000" .
qed

lemma ref_pdf: "37669285 / 100000000 \<le> std_norm_pdf ref_d1" "std_norm_pdf ref_d1 \<le> 37669287 / 100000000"
proof -
  have "(37669285 / 100000000 :: real) \<le> (94422896 / 100000000) / (250662830 / 100000000)"
    by simp
  also have "\<dots> \<le> std_norm_pdf ref_d1"
    unfolding std_norm_pdf_def by (rule div_enclosure(1) [OF ref_exp sqrt_2pi_bounds]) simp_all
  finally show "37669285 / 100000000 \<le> std_norm_pdf ref_d1" .
  have "std_norm_pdf ref_d1 \<le> (94422898 / 100000000) / (250662825 / 100000000)"
    unfolding std_norm_pdf_def by (rule div_enclosure(2) [OF ref_exp sqrt_2pi_bounds]) simp_all
  also have "\<dots> \<le> 37669287 / 100000000"
    by simp
  finally show "std_norm_pdf ref_d1 \<le> 37669287 / 100000000" .
qed

lemma ref_run:
  "BlackScholes Builtin_division (1 / 20) 50 48 (1 / 2) (2 / 5) ''C'' (1 / 50) =
    Returned PyNone
      [Fixed5 ''Call Option Price: ''
         (50 * exp (- (1 / 100)) * std_norm_cdf ref_d1 - 48 * exp (- (1 / 40)) * std_norm_cdf ref_d2),
       Text ''-----------------'',
       Fixed5 ''Call Delta: '' (std_norm_cdf ref_d1),
       Fixed5 ''Gamma: '' (std_norm_pdf ref_d1 / (20 * sqrt (1 / 2))),
       Fixed5 ''Vega: '' (50 * std_norm_pdf ref_d1 * sqrt (1 / 2) / 100),
       Fixed5 ''Call Theta: ''
         ((- (20 * std_norm_pdf ref_d1) / (2 * sqrt (1 / 2)) + std_norm_cdf ref_d1
           - 12 / 5 * exp (- (1 / 40)) * std_norm_cdf ref_d2) / 252),
       Fixed5 ''Call Rho: '' (24 * exp (- (1 / 40)) * std_norm_cdf ref_d2 / 100)]"
  apply (simp add: BlackScholes_C calc_gamma_def calc_vega_def norm_cdf_std norm_pdf_std
        flip: ref_d1_def)
  apply (simp add: flip: ref_d2_def)
  done

lemma ref_discounted_cdf_d1:
  "62631836 / 100000000 \<le> exp (- (1 / 100)) * std_norm_cdf ref_d1"
  "exp (- (1 / 100)) * std_norm_cdf ref_d1 \<le> 62631840 / 100000000"
proof -
  have "(62631836 / 100000000 :: real) \<le> 9900498337 / 10000000000 * (63261297 / 100000000)"
    by simp
  also have "\<dots> \<le> exp (- (1 / 100)) * std_norm_cdf ref_d1"
    by (rule mult_enclosure(1) [OF eq_bounds ref_cdf_d1]) simp_all
  finally show "62631836 / 100000000 \<le> exp (- (1 / 100)) * std_norm_cdf ref_d1" .
  have "exp (- (1 / 100)) * std_norm_cdf ref_d1 \<le> 9900498338 / 10000000000 * (63261300 / 100000000)"
    by (rule mult_enclosure(2) [OF eq_bounds ref_cdf_d1]) simp_all
  also have "\<dots> \<le> 62631840 / 100000000"
    by simp
  finally show "exp (- (1 / 100)) * std_norm_cdf ref_d1 \<le> 62631840 / 100000000" .
qed

lemma ref_discounted_cdf_d2:
  "50940911 / 100000000 \<le> exp (- (1 / 40)) * std_norm_cdf ref_d2"
  "exp (- (1 / 40)) * std_norm_cdf ref_d2 \<le> 50940914 / 100000000"
proof -
  have "(50940911 / 100000000 :: real) \<le> 9753099120 / 10000000000 * (52230487 / 100000000)"
    by simp
  also have "\<dots> \<le> exp (- (1 / 40)) * std_norm_cdf ref_d2"
    by (rule mult_enclosure(1) [OF er_bounds ref_cdf_d2]) simp_all
  finally show "50940911 / 100000000 \<le> exp (- (1 / 40)) * std_norm_cdf ref_d2" .
  have "exp (- (1 / 40)) * std_norm_cdf ref_d2 \<le> 9753099121 / 10000000000 * (52230489 / 100000000)"
    by (rule mult_enclosure(2) [OF er_bounds ref_cdf_d2]) simp_all
  also have "\<dots> \<le> 50940914 / 100000000"
    by simp
  finally show "exp (- (1 / 40)) * std_norm_cdf ref_d2 \<le> 50940914 / 100000000" .
qed

lemma ref_pdf_over_sqrt:
  "53272413 / 100000000 \<le> std_norm_pdf ref_d1 / sqrt (1 / 2)"
  "std_norm_pdf ref_d1 / sqrt (1 / 2) \<le> 53272418 / 100000000"
proof -
  have "(53272413 / 100000000 :: real) \<le> (37669285 / 100000000) / (70710678119 / 100000000000)"
    by simp
  also have "\<dots> \<le> std_norm_pdf ref_d1 / sqrt (1 / 2)"
    by (rule div_enclosure(1) [OF ref_pdf sqrt_half_bounds]) simp_all
  finally show "53272413 / 100000000 \<le> std_norm_pdf ref_d1 / sqrt (1 / 2)" .
  have "std_norm_pdf ref_d1 / sqrt (1 / 2) \<le> (37669287 / 100000000) / (70710678118 / 100000000000)"
    by (rule div_enclosure(2) [OF ref_pdf sqrt_half_bounds]) simp_all
  also have "\<dots> \<le> 53272418 / 100000000"
    by simp
  finally show "std_norm_pdf ref_d1 / sqrt (1 / 2) \<le> 53272418 / 100000000" .
qed

lemma ref_pdf_times_sqrt:
  "26636206 / 100000000 \<le> std_norm_pdf ref_d1 * sqrt (1 / 2)"
  "std_norm_pdf ref_d1 * sqrt (1 / 2) \<le> 26636209 / 100000000"
proof -
  have "(26636206 / 100000000 :: real) \<le> 37669285 / 100000000 * (70710678118 / 100000000000)"
    by simp
  also have "\<dots> \<le> std_norm_pdf ref_d1 * sqrt (1 / 2)"
    by (rule mult_enclosure(1) [OF ref_pdf sqrt_half_bounds]) simp_all
  finally show "26636206 / 100000000 \<le> std_norm_pdf ref_d1 * sqrt (1 / 2)" .
  have "std_norm_pdf ref_d1 * sqrt (1 / 2) \<le> 37669287 / 100000000 * (70710678119 / 100000000000)"
    by (rule mult_enclosure(2) [OF ref_pdf sqrt_half_bounds]) simp_all
  also have "\<dots> \<le> 26636209 / 100000000"
    by simp
  finally show "std_norm_pdf ref_d1 * sqrt (1 / 2) \<le> 26636209 / 100000000" .
qed

lemma ref_price:
  "\<bar>50 * exp (- (1 / 100)) * std_norm_cdf ref_d1 - 48 * exp (- (1 / 40)) * std_norm_cdf ref_d2
     - 686428 / 100000\<bar> \<le> 1 / 10000"
proof -
  define a where "a = exp (- (1 / 100)) * std_norm_cdf ref_d1"
  define b where "b = exp (- (1 / 40)) * std_norm_cdf ref_d2"
  have e: "50 * exp (- (1 / 100)) * std_norm_cdf ref_d1 - 48 * exp (- (1 / 40)) * std_norm_cdf ref_d2
      = 50 * a - 48 * b"
    by (simp add: a_def b_def)
  have "62631836 / 100000000 \<le> a" "a \<le> 62631840 / 100000000"
    "50940911 / 100000000 \<le> b" "b \<le> 50940914 / 100000000"
    unfolding a_def b_def by (rule ref_discounted_cdf_d1 ref_discounted_cdf_d2)+
  then show ?thesis
    unfolding e by linarith
qed

lemma ref_delta: "\<bar>std_norm_cdf ref_d1 - 63261 / 100000\<bar> \<le> 1 / 10000"
  using ref_cdf_d1 by linarith

lemma ref_gamma: "\<bar>std_norm_pdf ref_d1 / (20 * sqrt (1 / 2)) - 2664 / 100000\<bar> \<le> 1 / 10000"
proof -
  define g where "g = std_norm_pdf ref_d1 / sqrt (1 / 2)"
  have e: "std_norm_pdf ref_d1 / (20 * sqrt (1 / 2)) = g / 20"
    by (simp add: g_def)
  have "53272413 / 100000000 \<le> g" "g \<le> 53272418 / 100000000"
    unfolding g_def by (rule ref_pdf_over_sqrt)+
  then show ?thesis
    unfolding e by linarith
qed

lemma ref_vega: "\<bar>50 * std_norm_pdf ref_d1 * sqrt (1 / 2) / 100 - 13318 / 100000\<bar> \<le> 1 / 10000"
proof -
  define v where "v = std_norm_pdf ref_d1 * sqrt (1 / 2)"
  have e: "50 * std_norm_pdf ref_d1 * sqrt (1 / 2) / 100 = v / 2"
    by (simp add: v_def)
  have "26636206 / 100000000 \<le> v" "v \<le> 26636209 / 100000000"
    unfolding v_def by (rule ref_pdf_times_sqrt)+
  then show ?thesis
    unfolding e by linarith
qed

lemma ref_theta:
  "\<bar>(- (20 * std_norm_pdf ref_d1) / (2 * sqrt (1 / 2)) + std_norm_cdf ref_d1
      - 12 / 5 * exp (- (1 / 40)) * std_norm_cdf ref_d2) / 252 - (- 2348 / 100000)\<bar> \<le> 1 / 10000"
proof -
  define g where "g = std_norm_pdf ref_d1 / sqrt (1 / 2)"
  define b where "b = exp (- (1 / 40)) * std_norm_cdf ref_d2"
  define n where "n = std_norm_cdf ref_d1"
  have e: "(- (20 * std_norm_pdf ref_d1) / (2 * sqrt (1 / 2)) + std_norm_cdf ref_d1
      - 12 / 5 * exp (- (1 / 40)) * std_norm_cdf ref_d2) / 252
    = (- 10 * g + n - 12 / 5 * b) / 252"
    by (simp add: g_def b_def n_def)
  have "53272413 / 100000000 \<le> g" "g \<le> 53272418 / 100000000"
    "50940911 / 100000000 \<le> b" "b \<le> 50940914 / 100000000"
    "63261297 / 100000000 \<le> n" "n \<le> 63261300 / 100000000"
    unfolding g_def b_def n_def by (rule ref_pdf_over_sqrt ref_discounted_cdf_d2 ref_cdf_d1)+
  then show ?thesis
    unfolding e by (simp add: abs_le_iff field_simps)
qed

lemma ref_rho: "\<bar>24 * exp (- (1 / 40)) * std_norm_cdf ref_d2 / 100 - 12226 / 100000\<bar> \<le> 1 / 10000"
proof -
  define b where "b = exp (- (1 / 40)) * std_norm_cdf ref_d2"
  have e: "24 * exp (- (1 / 40)) * std_norm_cdf ref_d2 / 100 = 24 * b / 100"
    by (simp add: b_def)
  have "50940911 / 100000000 \<le> b" "b \<le> 50940914 / 100000000"
    unfolding b_def by (rule ref_discounted_cdf_d2)+
  then show ?thesis
    unfolding e by linarith
qed

lemma spec_d1_ref: "spec_d1 (1 / 20) 50 48 (1 / 2) (2 / 5) (1 / 50) = ref_d1"
  by (simp only: ref_d1_def calc_d1_spec)

lemma spec_d2_ref: "spec_d2 (1 / 20) 50 48 (1 / 2) (2 / 5) (1 / 50) = ref_d2"
  by (simp only: ref_d2_def ref_d1_def calc_d1_spec calc_d2_spec)

lemma ref_discounted_pdf_over_sqrt:
  "exp (- (1 / 100)) * (std_norm_pdf ref_d1 / sqrt (1 / 2)) \<le> 52742350 / 100000000"
proof -
  have "exp (- (1 / 100)) * (std_norm_pdf ref_d1 / sqrt (1 / 2))
      \<le> 9900498338 / 10000000000 * (53272418 / 100000000)"
    by (rule mult_enclosure(2) [OF eq_bounds ref_pdf_over_sqrt]) simp_all
  also have "\<dots> \<le> 52742350 / 100000000"
    by simp
  finally show ?thesis .
qed

lemma ref_discounted_pdf_times_sqrt:
  "exp (- (1 / 100)) * (std_norm_pdf ref_d1 * sqrt (1 / 2)) \<le> 26371180 / 100000000"
proof -
  have "exp (- (1 / 100)) * (std_norm_pdf ref_d1 * sqrt (1 / 2))
      \<le> 9900498338 / 10000000000 * (26636209 / 100000000)"
    by (rule mult_enclosure(2) [OF eq_bounds ref_pdf_times_sqrt]) simp_all
  also have "\<dots> \<le> 26371180 / 100000000"
    by simp
  finally show ?thesis .
qed

section \<open>Claims\<close>

text \<open>
  C1. For every input with spot price \<open>S > 0\<close>, strike \<open>K > 0\<close>, time to expiry \<open>T > 0\<close> and
  volatility \<open>sigma > 0\<close>, the call price the function computes (and prints) is
  \<open>S\<sdot>e^(-qT)\<sdot>N(d1) - K\<sdot>e^(-rT)\<sdot>N(d2)\<close> and the put price is
  \<open>K\<sdot>e^(-rT)\<sdot>N(-d2) - S\<sdot>e^(-qT)\<sdot>N(-d1)\<close>, with \<open>d1\<close> and \<open>d2\<close> as the specification
  defines them and \<open>N\<close> the standard normal cumulative distribution function.
\<close>

theorem C1_price_formulas:
  assumes "0 < S" and "0 < K" and "0 < T" and "0 < sigma"
  shows "printed ''Call Option Price: '' (BlackScholes dv r S K T sigma ''C'' q)
           = Some (spec_call_price r S K T sigma q)
       \<and> printed ''Put Option Price: '' (BlackScholes dv r S K T sigma ''P'' q)
           = Some (spec_put_price r S K T sigma q)"
proof -
  from assms have K: "dv = Numpy_division \<or> K \<noteq> 0" by simp
  show ?thesis
    by (simp add: printed_def BlackScholes_C [OF K] BlackScholes_P [OF K] calc_d1_spec
        calc_d2_spec norm_cdf_std spec_call_price_def spec_put_price_def)
qed

theorem C1_price_formulas_witness:
  "printed ''Call Option Price: '' (BlackScholes Builtin_division (1 / 20) 50 48 (1 / 2) (2 / 5) ''C'' (1 / 50))
     = Some (spec_call_price (1 / 20) 50 48 (1 / 2) (2 / 5) (1 / 50))
   \<and> printed ''Put Option Price: '' (BlackScholes Builtin_division (1 / 20) 50 48 (1 / 2) (2 / 5) ''P'' (1 / 50))
     = Some (spec_put_price (1 / 20) 50 48 (1 / 2) (2 / 5) (1 / 50))"
  using C1_price_formulas
    [where S = 50 and K = 48 and T = "1 / 2" and sigma = "2 / 5" and r = "1 / 20" and q = "1 / 50"
      and dv = Builtin_division]
  by simp

text \<open>
  C2 (as stated: every input with time to expiry, volatility, spot or strike \<open>\<le> 0\<close> is
  rejected with an InvalidInput error, by a validation that precedes every division). The
  function has no validation. With a negative volatility and the other arguments of the
  notebook's first call, nothing is raised and the seven lines of a call's result are printed.
\<close>

theorem C2_negative_volatility_accepted:
  "(- 2 / 5 :: real) \<le> 0
   \<and> raised (BlackScholes Builtin_division (1 / 20) 50 48 (1 / 2) (- 2 / 5) ''C'' (1 / 50)) = None
   \<and> returned (BlackScholes Builtin_division (1 / 20) 50 48 (1 / 2) (- 2 / 5) ''C'' (1 / 50)) = Some PyNone
   \<and> map label_of (stdout_of (BlackScholes Builtin_division (1 / 20) 50 48 (1 / 2) (- 2 / 5) ''C'' (1 / 50)))
       = call_labels"
  by (simp add: BlackScholes_C call_labels_def)

text \<open>
  C2 (amended). The function checks none of its numeric arguments and has no InvalidInput error:
  whatever the signs of time to expiry, volatility, spot and strike, a call with option type
  \<^verbatim>\<open>"C"\<close> or \<^verbatim>\<open>"P"\<close> returns \<^verbatim>\<open>None\<close> and prints the seven lines of a result, provided that
  the division \<^verbatim>\<open>S / K\<close> does not raise (the strike is not zero, or spot or strike is a numpy
  float) and that \<^verbatim>\<open>sigma ** 2\<close> does not overflow (here: \<open>\<bar>sigma\<bar> \<le> 10^154\<close>). No check
  precedes the division \<^verbatim>\<open>S / K\<close>: with a zero strike and spot and strike both builtin
  numbers, that division itself raises \<^verbatim>\<open>ZeroDivisionError\<close> and nothing has been printed.
\<close>

theorem C2_no_validation:
  assumes "dv = Numpy_division \<or> K \<noteq> 0"
    and "option_type = ''C'' \<or> option_type = ''P''"
    and "\<bar>sigma\<bar> \<le> 10 ^ 154"
  shows "raised (BlackScholes dv r S K T sigma option_type q) = None
       \<and> returned (BlackScholes dv r S K T sigma option_type q) = Some PyNone
       \<and> map label_of (stdout_of (BlackScholes dv r S K T sigma option_type q))
           = (if option_type = ''C'' then call_labels else put_labels)
       \<and> BlackScholes Builtin_division r S 0 T sigma option_type q = Raised ZeroDivisionError []"
proof -
  have z: "BlackScholes Builtin_division r S 0 T sigma ot q = Raised ZeroDivisionError []" for ot
    by (simp add: BlackScholes_def)
  from assms(2) show ?thesis
  proof
    assume "option_type = ''C''"
    then show ?thesis
      by (simp add: z BlackScholes_C [OF assms(1)] call_labels_def)
  next
    assume "option_type = ''P''"
    then show ?thesis
      by (simp add: z BlackScholes_P [OF assms(1)] put_labels_def)
  qed
qed

theorem C2_no_validation_witness:
  "raised (BlackScholes Numpy_division (1 / 20) (- 50) 0 (- 1 / 2) (- 2 / 5) ''P'' 0) = None
   \<and> returned (BlackScholes Numpy_division (1 / 20) (- 50) 0 (- 1 / 2) (- 2 / 5) ''P'' 0)
       = Some PyNone
   \<and> map label_of
         (stdout_of (BlackScholes Numpy_division (1 / 20) (- 50) 0 (- 1 / 2) (- 2 / 5) ''P'' 0))
       = put_labels
   \<and> BlackScholes Builtin_division (1 / 20) (- 50) 0 (- 1 / 2) (- 2 / 5) ''P'' 0
       = Raised ZeroDivisionError []"
proof -
  have "\<bar>- 2 / 5 :: real\<bar> \<le> 10 ^ 154" by simp
  with C2_no_validation
    [where dv = Numpy_division and K = 0 and option_type = "''P''" and sigma = "- 2 / 5"
      and r = "1 / 20" and S = "- 50" and T = "- 1 / 2" and q = 0]
  show ?thesis by simp
qed

text \<open>
  C3 (the delta is \<open>e^(-qT)\<sdot>N(d1)\<close> for a call and \<open>-e^(-qT)\<sdot>N(-d1)\<close> for a put). The
  notebook's own formula cell says the same, but \<^verbatim>\<open>calc_delta\<close> leaves the factor \<open>e^(-qT)\<close>
  out. At the recorded call (\<open>q = 0.02\<close>, \<open>T = 0.5\<close>) the delta printed is \<open>N(d1)\<close>, more than
  \<open>0.006\<close> above the documented value.
\<close>

theorem C3_call_delta_lacks_dividend_discount:
  "\<exists>delta. printed ''Call Delta: '' (BlackScholes Builtin_division (1 / 20) 50 48 (1 / 2) (2 / 5) ''C'' (1 / 50))
             = Some delta
     \<and> delta = std_norm_cdf (spec_d1 (1 / 20) 50 48 (1 / 2) (2 / 5) (1 / 50))
     \<and> spec_call_delta (1 / 20) 50 48 (1 / 2) (2 / 5) (1 / 50) + 6 / 1000 \<le> delta"
proof -
  have "exp (- (1 / 100)) * std_norm_cdf ref_d1 + 6 / 1000 \<le> std_norm_cdf ref_d1"
    using ref_discounted_cdf_d1(2) ref_cdf_d1(1) by linarith
  then show ?thesis
    by (simp add: printed_def ref_run spec_call_delta_def spec_d1_ref)
qed

text \<open>
  C4 (gamma is \<open>e^(-qT)\<sdot>N'(d1) / (S\<sdot>\<sigma>\<sdot>\<surd>T)\<close> and vega is \<open>0.01\<sdot>S\<sdot>e^(-qT)\<sdot>N'(d1)\<sdot>\<surd>T\<close>). The
  notebook's own formula cell says the same, but \<^verbatim>\<open>calc_gamma\<close> and \<^verbatim>\<open>calc_vega\<close> leave the
  factor \<open>e^(-qT)\<close> out. At the recorded call the gamma printed is more than \<open>0.0002\<close> and the
  vega more than \<open>0.001\<close> above the documented values.
\<close>

theorem C4_gamma_vega_lack_dividend_discount:
  "\<exists>gamma vega.
     printed ''Gamma: '' (BlackScholes Builtin_division (1 / 20) 50 48 (1 / 2) (2 / 5) ''C'' (1 / 50)) = Some gamma
     \<and> printed ''Vega: '' (BlackScholes Builtin_division (1 / 20) 50 48 (1 / 2) (2 / 5) ''C'' (1 / 50)) = Some vega
     \<and> spec_gamma (1 / 20) 50 48 (1 / 2) (2 / 5) (1 / 50) + 2 / 10000 \<le> gamma
     \<and> spec_vega (1 / 20) 50 48 (1 / 2) (2 / 5) (1 / 50) + 1 / 1000 \<le> vega"
proof -
  define g where "g = std_norm_pdf ref_d1 / sqrt (1 / 2)"
  define eg where "eg = exp (- (1 / 100)) * (std_norm_pdf ref_d1 / sqrt (1 / 2))"
  define v where "v = std_norm_pdf ref_d1 * sqrt (1 / 2)"
  define ev where "ev = exp (- (1 / 100)) * (std_norm_pdf ref_d1 * sqrt (1 / 2))"
  have b: "53272413 / 100000000 \<le> g" "eg \<le> 52742350 / 100000000"
    "26636206 / 100000000 \<le> v" "ev \<le> 26371180 / 100000000"
    unfolding g_def eg_def v_def ev_def
    by (rule ref_pdf_over_sqrt ref_discounted_pdf_over_sqrt ref_pdf_times_sqrt
        ref_discounted_pdf_times_sqrt)+
  have 1: "spec_gamma (1 / 20) 50 48 (1 / 2) (2 / 5) (1 / 50) = eg / 20"
    by (simp add: spec_gamma_def spec_d1_ref eg_def)
  have 2: "std_norm_pdf ref_d1 / (20 * sqrt (1 / 2)) = g / 20"
    by (simp add: g_def)
  have 3: "spec_vega (1 / 20) 50 48 (1 / 2) (2 / 5) (1 / 50) = ev / 2"
    by (simp add: spec_vega_def spec_d1_ref ev_def)
  have 4: "50 * std_norm_pdf ref_d1 * sqrt (1 / 2) / 100 = v / 2"
    by (simp add: v_def)
  have p: "printed ''Gamma: '' (BlackScholes Builtin_division (1 / 20) 50 48 (1 / 2) (2 / 5) ''C'' (1 / 50)) = Some (g / 20)"
    "printed ''Vega: '' (BlackScholes Builtin_division (1 / 20) 50 48 (1 / 2) (2 / 5) ''C'' (1 / 50)) = Some (v / 2)"
    by (simp_all add: printed_def ref_run 2 4)
  have "eg / 20 + 2 / 10000 \<le> g / 20" "ev / 2 + 1 / 1000 \<le> v / 2"
    using b by linarith+
  with p show ?thesis
    unfolding 1 3 by blast
qed

text \<open>
  C5 (the theta of a call is \<open>(1/252)\<sdot>(-S\<sdot>e^(-qT)\<sdot>N'(d1)\<sdot>\<sigma>/(2\<surd>T) + q\<sdot>S\<sdot>e^(-qT)\<sdot>N(d1)
  - r\<sdot>K\<sdot>e^(-rT)\<sdot>N(d2))\<close>). The notebook's own formula cell says the same, but
  \<^verbatim>\<open>calc_theta\<close> leaves the factor \<open>e^(-qT)\<close> out of the first two terms. At the recorded call
  the theta printed is more than \<open>0.0001\<close> below the documented value.
\<close>

theorem C5_call_theta_lacks_dividend_discount:
  "\<exists>theta.
     printed ''Call Theta: '' (BlackScholes Builtin_division (1 / 20) 50 48 (1 / 2) (2 / 5) ''C'' (1 / 50)) = Some theta
     \<and> theta + 1 / 10000 \<le> spec_call_theta (1 / 20) 50 48 (1 / 2) (2 / 5) (1 / 50)"
proof -
  define g where "g = std_norm_pdf ref_d1 / sqrt (1 / 2)"
  define eg where "eg = exp (- (1 / 100)) * (std_norm_pdf ref_d1 / sqrt (1 / 2))"
  define n where "n = std_norm_cdf ref_d1"
  define en where "en = exp (- (1 / 100)) * std_norm_cdf ref_d1"
  define b where "b = exp (- (1 / 40)) * std_norm_cdf ref_d2"
  have bs: "53272413 / 100000000 \<le> g" "eg \<le> 52742350 / 100000000"
    "n \<le> 63261300 / 100000000" "62631836 / 100000000 \<le> en"
    unfolding g_def eg_def n_def en_def
    by (rule ref_pdf_over_sqrt ref_discounted_pdf_over_sqrt ref_cdf_d1 ref_discounted_cdf_d1)+
  have 1: "spec_call_theta (1 / 20) 50 48 (1 / 2) (2 / 5) (1 / 50)
      = (- 10 * eg + en - 12 / 5 * b) / 252"
    by (simp add: spec_call_theta_def spec_d1_ref spec_d2_ref eg_def en_def b_def)
  have 2: "(- (20 * std_norm_pdf ref_d1) / (2 * sqrt (1 / 2)) + std_norm_cdf ref_d1
      - 12 / 5 * exp (- (1 / 40)) * std_norm_cdf ref_d2) / 252
      = (- 10 * g + n - 12 / 5 * b) / 252"
    by (simp add: g_def n_def b_def)
  have p: "printed ''Call Theta: '' (BlackScholes Builtin_division (1 / 20) 50 48 (1 / 2) (2 / 5) ''C'' (1 / 50))
      = Some ((- 10 * g + n - 12 / 5 * b) / 252)"
    by (simp only: printed_def ref_run stdout_of.simps find_value.simps 2) simp
  have "(- 10 * g + n - 12 / 5 * b) / 252 + 1 / 10000 \<le> (- 10 * eg + en - 12 / 5 * b) / 252"
    using bs by (simp add: field_simps)
  with p show ?thesis
    unfolding 1 by blast
qed

text \<open>
  C6 (as stated: an option type that is neither call nor put makes the function signal an
  UnsupportedOptionType error to its caller). With option type \<^verbatim>\<open>"X"\<close> the function raises
  nothing: it returns \<^verbatim>\<open>None\<close>, having printed the message of the \<^verbatim>\<open>ValueError\<close> it raised and
  caught itself.
\<close>

theorem C6_error_not_signalled:
  "raised (BlackScholes Builtin_division (1 / 20) 50 48 (1 / 2) (2 / 5) ''X'' (1 / 50)) = None
   \<and> BlackScholes Builtin_division (1 / 20) 50 48 (1 / 2) (2 / 5) ''X'' (1 / 50)
       = Returned PyNone [Text invalid_option_type_message]"
  by (simp add: BlackScholes_other)

text \<open>
  C6 (amended). For every input with a non-zero strike whose option type is neither \<^verbatim>\<open>"C"\<close>
  nor \<^verbatim>\<open>"P"\<close>, the function raises \<^verbatim>\<open>ValueError\<close> inside its \<^verbatim>\<open>try\<close>, catches it, prints its
  message and returns \<^verbatim>\<open>None\<close>: the caller receives no exception. Nothing partial is printed:
  the output is the error message alone, or the seven lines of a call's result, or the seven
  lines of a put's.
\<close>

theorem C6_error_printed_or_complete_result:
  assumes "K \<noteq> 0"
  shows "(if option_type = ''C'' then
            map label_of (stdout_of (BlackScholes dv r S K T sigma option_type q)) = call_labels
          else if option_type = ''P'' then
            map label_of (stdout_of (BlackScholes dv r S K T sigma option_type q)) = put_labels
          else BlackScholes dv r S K T sigma option_type q
                 = Returned PyNone [Text invalid_option_type_message])
         \<and> raised (BlackScholes dv r S K T sigma option_type q) = None"
  using assms
  by (simp add: BlackScholes_C BlackScholes_P BlackScholes_other call_labels_def put_labels_def)

theorem C6_error_printed_or_complete_result_witness:
  "BlackScholes Builtin_division 0 1 1 0 0 ''call'' 0 = Returned PyNone [Text invalid_option_type_message]
   \<and> raised (BlackScholes Builtin_division 0 1 1 0 0 ''call'' 0) = None"
  using C6_error_printed_or_complete_result
    [where K = 1 and option_type = "''call''" and r = 0 and S = 1 and T = 0 and sigma = 0 and q = 0
      and dv = Builtin_division]
  by simp

text \<open>
  C7 (as stated: for a valid input the function returns a PricingResult to its caller and
  performs no input or output). The notebook's first call returns \<^verbatim>\<open>None\<close> and prints seven
  lines on standard output.
\<close>

theorem C7_prints_and_returns_None:
  "returned (BlackScholes Builtin_division (1 / 20) 50 48 (1 / 2) (2 / 5) ''C'' (1 / 50)) = Some PyNone
   \<and> length (stdout_of (BlackScholes Builtin_division (1 / 20) 50 48 (1 / 2) (2 / 5) ''C'' (1 / 50))) = 7"
  by (simp add: BlackScholes_C)

text \<open>
  C7 (amended). For every valid input (\<open>S > 0\<close>, \<open>K > 0\<close>, \<open>T > 0\<close>, \<open>sigma > 0\<close>, option type
  \<^verbatim>\<open>"C"\<close> or \<^verbatim>\<open>"P"\<close>) the function returns \<^verbatim>\<open>None\<close> to its caller and delivers the six values
  (price, delta, gamma, vega, theta, rho) by printing them, one line each after the price and
  a separator line, on standard output.
\<close>

theorem C7_result_is_printed:
  assumes "0 < S" and "0 < K" and "0 < T" and "0 < sigma"
  shows "(\<exists>price delta gamma vega theta rho.
            BlackScholes dv r S K T sigma ''C'' q
              = Returned PyNone
                  [Fixed5 ''Call Option Price: '' price, Text ''-----------------'',
                   Fixed5 ''Call Delta: '' delta, Fixed5 ''Gamma: '' gamma, Fixed5 ''Vega: '' vega,
                   Fixed5 ''Call Theta: '' theta, Fixed5 ''Call Rho: '' rho])
       \<and> (\<exists>price delta gamma vega theta rho.
            BlackScholes dv r S K T sigma ''P'' q
              = Returned PyNone
                  [Fixed5 ''Put Option Price: '' price, Text ''-----------------'',
                   Fixed5 ''Put Delta: '' delta, Fixed5 ''Gamma: '' gamma, Fixed5 ''Vega: '' vega,
                   Fixed5 ''Put Theta: '' theta, Fixed5 ''Put Rho: '' rho])"
proof -
  from assms have K: "dv = Numpy_division \<or> K \<noteq> 0" by simp
  show ?thesis
    unfolding BlackScholes_C [OF K] BlackScholes_P [OF K] by blast
qed

theorem C7_result_is_printed_witness:
  "(\<exists>price delta gamma vega theta rho.
      BlackScholes Builtin_division (1 / 20) 50 48 (1 / 2) (2 / 5) ''C'' (1 / 50)
        = Returned PyNone
            [Fixed5 ''Call Option Price: '' price, Text ''-----------------'',
             Fixed5 ''Call Delta: '' delta, Fixed5 ''Gamma: '' gamma, Fixed5 ''Vega: '' vega,
             Fixed5 ''Call Theta: '' theta, Fixed5 ''Call Rho: '' rho])
   \<and> (\<exists>price delta gamma vega theta rho.
      BlackScholes Builtin_division (1 / 20) 50 48 (1 / 2) (2 / 5) ''P'' (1 / 50)
        = Returned PyNone
            [Fixed5 ''Put Option Price: '' price, Text ''-----------------'',
             Fixed5 ''Put Delta: '' delta, Fixed5 ''Gamma: '' gamma, Fixed5 ''Vega: '' vega,
             Fixed5 ''Put Theta: '' theta, Fixed5 ''Put Rho: '' rho])"
  using C7_result_is_printed
    [where S = 50 and K = 48 and T = "1 / 2" and sigma = "2 / 5" and r = "1 / 20" and q = "1 / 50"
      and dv = Builtin_division]
  by simp

text \<open>
  C8. Put-call parity: for every valid input (\<open>S > 0\<close>, \<open>K > 0\<close>, \<open>T > 0\<close>, \<open>sigma > 0\<close>, any
  \<open>r\<close> and \<open>q\<close>) the call price and the put price computed from the same parameters differ by
  exactly \<open>S\<sdot>e^(-qT) - K\<sdot>e^(-rT)\<close>, over the reals.
\<close>

theorem C8_put_call_parity:
  assumes "0 < S" and "0 < K" and "0 < T" and "0 < sigma"
  shows "\<exists>c p. printed ''Call Option Price: '' (BlackScholes dv r S K T sigma ''C'' q) = Some c
             \<and> printed ''Put Option Price: '' (BlackScholes dv r S K T sigma ''P'' q) = Some p
             \<and> c - p = S * exp (- (q * T)) - K * exp (- (r * T))"
proof -
  from assms have K: "dv = Numpy_division \<or> K \<noteq> 0" by simp
  define d1 where "d1 = calc_d1 r S K T sigma q"
  define d2 where "d2 = calc_d2 d1 sigma T"
  have n1: "std_norm_cdf (- d1) = 1 - std_norm_cdf d1"
    using std_norm_cdf_symmetry [of d1] by simp
  have n2: "std_norm_cdf (- d2) = 1 - std_norm_cdf d2"
    using std_norm_cdf_symmetry [of d2] by simp
  have "(S * exp (- q * T) * std_norm_cdf d1 - K * exp (- r * T) * std_norm_cdf d2)
        - (K * exp (- r * T) * std_norm_cdf (- d2) - S * exp (- q * T) * std_norm_cdf (- d1))
        = S * exp (- (q * T)) - K * exp (- (r * T))"
    by (simp add: n1 n2 algebra_simps)
  then show ?thesis
    by (simp add: printed_def BlackScholes_C [OF K] BlackScholes_P [OF K] norm_cdf_std
        d1_def d2_def)
qed

theorem C8_put_call_parity_witness:
  "\<exists>c p. printed ''Call Option Price: '' (BlackScholes Builtin_division (1 / 20) 50 48 (1 / 2) (2 / 5) ''C'' (1 / 50))
             = Some c
         \<and> printed ''Put Option Price: '' (BlackScholes Builtin_division (1 / 20) 50 48 (1 / 2) (2 / 5) ''P'' (1 / 50))
             = Some p
         \<and> c - p = 50 * exp (- (1 / 50 * (1 / 2))) - 48 * exp (- (1 / 20 * (1 / 2)))"
  using C8_put_call_parity
    [where S = 50 and K = 48 and T = "1 / 2" and sigma = "2 / 5" and r = "1 / 20" and q = "1 / 50"
      and dv = Builtin_division]
  by simp

text \<open>
  C9. The recorded call \<^verbatim>\<open>BlackScholes(0.05, 50, 48, 0.5, 0.4, "C", 0.02)\<close> yields price
  \<open>6.86428\<close>, delta \<open>0.63261\<close>, gamma \<open>0.02664\<close>, vega \<open>0.13318\<close>, theta \<open>-0.02348\<close> and rho
  \<open>0.12226\<close>, each within \<open>10\<^sup>-\<^sup>4\<close>.
\<close>

theorem C9_reference_scenario:
  "\<exists>price delta gamma vega theta rho.
     BlackScholes Builtin_division (1 / 20) 50 48 (1 / 2) (2 / 5) ''C'' (1 / 50)
       = Returned PyNone
           [Fixed5 ''Call Option Price: '' price, Text ''-----------------'',
            Fixed5 ''Call Delta: '' delta, Fixed5 ''Gamma: '' gamma, Fixed5 ''Vega: '' vega,
            Fixed5 ''Call Theta: '' theta, Fixed5 ''Call Rho: '' rho]
     \<and> \<bar>price - 686428 / 100000\<bar> \<le> 1 / 10000
     \<and> \<bar>delta - 63261 / 100000\<bar> \<le> 1 / 10000
     \<and> \<bar>gamma - 2664 / 100000\<bar> \<le> 1 / 10000
     \<and> \<bar>vega - 13318 / 100000\<bar> \<le> 1 / 10000
     \<and> \<bar>theta - (- 2348 / 100000)\<bar> \<le> 1 / 10000
     \<and> \<bar>rho - 12226 / 100000\<bar> \<le> 1 / 10000"
  unfolding ref_run
  using ref_price ref_delta ref_gamma ref_vega ref_theta ref_rho by blast



end
